theory Spec2Isabelle
  imports Complex_Main "HOL-Library.Multiset" "HOL-Library.Log_Nat"
begin

section \<open>Step counter backend: data model\<close>

text \<open>
  The backend (\<^verbatim>\<open>step_counter_app/backend/main.py\<close>) is a set of request handlers over a
  relational store with two tables. The embedding keeps the handlers' names and the order
  of their statements.

  Conventions of the embedding:
  \<^item> a Python \<^verbatim>\<open>int\<close> is an \<open>int\<close>; in the handlers a Python \<^verbatim>\<open>float\<close> is a \<open>real\<close>, so their
    arithmetic is exact and their properties are stated with the code's own operations
    only; the conversion function is given a second time with IEEE 754 rounding after
    every operation, for the one property that depends on rounding;
  \<^item> a \<^verbatim>\<open>datetime\<close> is an \<open>int\<close> (a point on a linear time axis);
  \<^item> a table is the list of its rows in insertion order;
  \<^item> a handler takes the store and returns the store after its last commit together with
    its answer; an exception is the \<open>Inl\<close> branch of the answer.
\<close>

type_synonym datetime = int

text \<open>The request body of \<^verbatim>\<open>POST /steps\<close> (\<^verbatim>\<open>models.StepRecordCreate\<close>).\<close>

record StepRecordCreate =
  steps :: int

text \<open>
  A row of the step table, with the columns that \<^verbatim>\<open>main.py\<close> writes and reads. It is also
  the shape of \<^verbatim>\<open>models.StepRecordResponse\<close>, which reads the row's attributes one to
  one. The source's field \<^verbatim>\<open>id\<close> is \<open>id'\<close> here.
\<close>

record StepRecord = StepRecordCreate +
  id' :: int
  distance_km :: real
  calories_burned :: real
  created_at :: datetime

text \<open>
  A row of the goal table. Its fields \<^verbatim>\<open>id\<close> and \<^verbatim>\<open>created_at\<close> are \<open>goal_id\<close> and
  \<open>goal_created_at\<close> here, to keep them apart from those of a step row.
\<close>

record WeightGoal =
  goal_id :: int
  target_weight_loss_kg :: real
  total_calories_needed :: real
  calories_burned_so_far :: real
  goal_created_at :: datetime

text \<open>\<^verbatim>\<open>models.WeightGoalResponse\<close>: the goal's fields and the two computed ones.\<close>

record WeightGoalResponse = WeightGoal +
  progress_percentage :: real
  remaining_calories :: real

text \<open>\<^verbatim>\<open>models.DashboardResponse\<close>.\<close>

record DashboardResponse =
  total_steps :: int
  total_distance_km :: real
  total_calories_burned :: real
  weight_goal :: WeightGoalResponse
  recent_records :: "StepRecord list"

text \<open>The two tables behind a database session.\<close>

record store =
  step_records :: "StepRecord list"
  weight_goals :: "WeightGoal list"

datatype error =
  HTTPException nat string
  | ZeroDivisionError
  | OverflowError
  | DBAPIError

text \<open>
  Modelled from the spec: \<^verbatim>\<open>database.py\<close>, which declares the two tables and their column
  defaults, is not part of the sources. The spec says that a goal row is created "with
  default values" and that the store assigns \<^verbatim>\<open>id\<close> and \<^verbatim>\<open>created_at\<close> on insert. The
  column defaults are therefore a parameter of the handlers, and so are the values the
  store assigns to the rows inserted by one request.
\<close>

record GoalDefaults =
  default_target_weight_loss_kg :: real
  default_total_calories_needed :: real
  default_calories_burned_so_far :: real

record Assigned =
  step_pk :: int
  step_now :: datetime
  goal_pk :: int
  goal_now :: datetime

section \<open>Queries\<close>

text \<open>\<^verbatim>\<open>Query.first()\<close>: the first row of the result, or \<^verbatim>\<open>None\<close>.\<close>

definition first :: "'a list \<Rightarrow> 'a option" where
  "first rows = (case rows of [] \<Rightarrow> None | r # _ \<Rightarrow> Some r)"

text \<open>\<^verbatim>\<open>func.sum\<close> over a column: SQL's SUM is NULL over no rows.\<close>

definition func_sum :: "('a::monoid_add) list \<Rightarrow> 'a option" where
  "func_sum column = (if column = [] then None else Some (sum_list column))"

text \<open>Python's \<^verbatim>\<open>x or d\<close> on an optional number: \<^verbatim>\<open>None\<close> and zero are both falsy.\<close>

definition or_default :: "('a::zero) option \<Rightarrow> 'a \<Rightarrow> 'a" where
  "or_default x d = (case x of None \<Rightarrow> d | Some v \<Rightarrow> if v = 0 then d else v)"

text \<open>
  \<^verbatim>\<open>order_by(StepRecord.created_at.desc())\<close>. SQL leaves the order of rows with equal keys
  open; the model keeps them in insertion order.
\<close>

definition order_by_created_at_desc :: "StepRecord list \<Rightarrow> StepRecord list" where
  "order_by_created_at_desc rows = sort_key (\<lambda>r. - created_at r) rows"

text \<open>
  \<^verbatim>\<open>limit(n)\<close>. The handlers pass \<open>n\<close> to the store as it is. A store keeps the first \<open>n\<close>
  rows when \<open>0 \<le> n\<close>; what it does with a negative \<open>n\<close> depends on the engine, which
  \<^verbatim>\<open>database.py\<close> chooses, and is the parameter \<open>negative_limit\<close>.
\<close>

definition limit ::
  "('a list \<Rightarrow> error + 'a list) \<Rightarrow> int \<Rightarrow> 'a list \<Rightarrow> error + 'a list" where
  "limit negative_limit n rows =
     (if 0 \<le> n then Inr (take (nat n) rows) else negative_limit rows)"

text \<open>
  SQLite reads a negative LIMIT as no limit at all; PostgreSQL rejects the statement, which
  SQLAlchemy raises as a \<^verbatim>\<open>DBAPIError\<close>.
\<close>

definition sqlite_negative_limit :: "'a list \<Rightarrow> error + 'a list" where
  "sqlite_negative_limit rows = Inr rows"

definition postgresql_negative_limit :: "'a list \<Rightarrow> error + 'a list" where
  "postgresql_negative_limit rows = Inl DBAPIError"

section \<open>The handlers\<close>

definition calculate_distance_and_calories :: "int \<Rightarrow> real \<times> real" where
  "calculate_distance_and_calories n =
     (let step_length_m = 0.762;
          distance_m = real_of_int n * step_length_m;
          km = distance_m / 1000;
          walking_speed_kmh = 5.0;
          time_hours = km / walking_speed_kmh;
          calories_per_hour = 700;
          calories = time_hours * calories_per_hour
      in (km, calories))"

text \<open>
  \<^verbatim>\<open>add_steps\<close>: inserts the new row, fetches the first goal or creates one from the
  defaults, adds the new calories to it and commits. It returns the refreshed row.
\<close>

definition add_steps ::
  "GoalDefaults \<Rightarrow> Assigned \<Rightarrow> StepRecordCreate \<Rightarrow> store \<Rightarrow> store \<times> StepRecord" where
  "add_steps defaults a step_data db =
     (let (km, calories) = calculate_distance_and_calories (steps step_data);
          db_step = \<lparr>steps = steps step_data, id' = step_pk a, distance_km = km,
                     calories_burned = calories, created_at = step_now a\<rparr>;
          goals =
            (case first (weight_goals db) of
               None \<Rightarrow>
                 [\<lparr>goal_id = goal_pk a,
                   target_weight_loss_kg = default_target_weight_loss_kg defaults,
                   total_calories_needed = default_total_calories_needed defaults,
                   calories_burned_so_far =
                     default_calories_burned_so_far defaults + calories,
                   goal_created_at = goal_now a\<rparr>]
             | Some g \<Rightarrow>
                 g\<lparr>calories_burned_so_far := calories_burned_so_far g + calories\<rparr>
                   # tl (weight_goals db))
      in (\<lparr>step_records = step_records db @ [db_step], weight_goals = goals\<rparr>, db_step))"

text \<open>\<^verbatim>\<open>get_steps\<close>: the rows by creation time, newest first, cut at \<open>n\<close>.\<close>

definition get_steps ::
  "(StepRecord list \<Rightarrow> error + StepRecord list) \<Rightarrow> int \<Rightarrow> store
     \<Rightarrow> error + StepRecord list" where
  "get_steps negative_limit n db =
     limit negative_limit n (order_by_created_at_desc (step_records db))"

text \<open>
  \<^verbatim>\<open>get_dashboard\<close>. The goal row is written and committed before the progress is
  computed, so the store that is returned holds the new goal also when the division
  raises.
\<close>

definition get_dashboard ::
  "GoalDefaults \<Rightarrow> Assigned \<Rightarrow> store \<Rightarrow> store \<times> (error + DashboardResponse)" where
  "get_dashboard defaults a db =
     (let rows = step_records db;
          steps_total = or_default (func_sum (map steps rows)) 0;
          distance_total = or_default (func_sum (map distance_km rows)) 0;
          calories_total = or_default (func_sum (map calories_burned rows)) 0;
          (g, goals) =
            (case first (weight_goals db) of
               None \<Rightarrow>
                 (let g = \<lparr>goal_id = goal_pk a,
                           target_weight_loss_kg = default_target_weight_loss_kg defaults,
                           total_calories_needed = default_total_calories_needed defaults,
                           calories_burned_so_far = calories_total,
                           goal_created_at = goal_now a\<rparr>
                  in (g, weight_goals db @ [g]))
             | Some g0 \<Rightarrow>
                 (let g = g0\<lparr>calories_burned_so_far := calories_total\<rparr>
                  in (g, g # tl (weight_goals db))));
          db' = db\<lparr>weight_goals := goals\<rparr>
      in if total_calories_needed g = 0 then (db', Inl ZeroDivisionError)
         else
           (let progress =
                  min (calories_burned_so_far g / total_calories_needed g * 100) 100;
                remaining =
                  max (total_calories_needed g - calories_burned_so_far g) 0;
                weight_goal_response =
                  \<lparr>goal_id = goal_id g,
                   target_weight_loss_kg = target_weight_loss_kg g,
                   total_calories_needed = total_calories_needed g,
                   calories_burned_so_far = calories_burned_so_far g,
                   goal_created_at = goal_created_at g,
                   progress_percentage = progress,
                   remaining_calories = remaining\<rparr>;
                recent = take 5 (order_by_created_at_desc (step_records db'))
            in (db', Inr \<lparr>total_steps = steps_total,
                          total_distance_km = distance_total,
                          total_calories_burned = calories_total,
                          weight_goal = weight_goal_response,
                          recent_records = recent\<rparr>)))"

text \<open>
  \<^verbatim>\<open>delete_step_record\<close>: looks the row up by id; raises the 404 when there is none,
  otherwise deletes the row of that primary key and commits.
\<close>

definition delete_step_record :: "int \<Rightarrow> store \<Rightarrow> store \<times> (error + string)" where
  "delete_step_record step_id db =
     (case first (filter (\<lambda>r. id' r = step_id) (step_records db)) of
        None \<Rightarrow> (db, Inl (HTTPException 404 ''Step record not found''))
      | Some step_record \<Rightarrow>
          (db\<lparr>step_records :=
                filter (\<lambda>r. id' r \<noteq> id' step_record) (step_records db)\<rparr>,
           Inr ''Step record deleted successfully''))"

section \<open>The conversion function in double precision\<close>

text \<open>
  CPython's \<^verbatim>\<open>float\<close> is IEEE 754 binary64 and every operation rounds to nearest, ties to
  even. A finite double is a rational number, so the values are of type \<open>rat\<close>.
\<close>

definition pow2 :: "int \<Rightarrow> rat" where
  "pow2 k = (if 0 \<le> k then 2 ^ nat k else 1 / 2 ^ nat (- k))"

text \<open>For \<open>x > 0\<close>, the exponent \<open>e\<close> with \<open>2^e \<le> x < 2^(e+1)\<close>.\<close>

definition floor_log2 :: "rat \<Rightarrow> int" where
  "floor_log2 x =
     (let (p, q) = quotient_of x; k = bitlen p - bitlen q
      in if pow2 k \<le> x then k else k - 1)"

definition round_half_even :: "rat \<Rightarrow> int" where
  "round_half_even x =
     (let f = \<lfloor>x\<rfloor>; d = x - of_int f
      in if d < 1 / 2 then f else if 1 / 2 < d then f + 1
         else if even f then f else f + 1)"

text \<open>
  The nearest number with a 53-bit significand, exponents below \<open>-1022\<close> sharing the
  spacing of \<open>-1022\<close> (the subnormal numbers). The exponent is not bounded above here: a
  result of magnitude \<open>2^1024\<close> or more is an overflow, which the caller tests.
\<close>

definition round_double :: "rat \<Rightarrow> rat" where
  "round_double x =
     (if x = 0 then 0
      else let e = max (floor_log2 \<bar>x\<bar>) (- 1022); ulp = pow2 (e - 52)
           in of_int (round_half_even (x / ulp)) * ulp)"





section \<open>Notions used by the properties\<close>

text \<open>
  The target of the goal row a dashboard read works on: the first goal row's
  \<open>total_calories_needed\<close>, or the column default when the read has to create the row.
\<close>

definition goal_target :: "GoalDefaults \<Rightarrow> store \<Rightarrow> real" where
  "goal_target defaults db =
     (case first (weight_goals db) of
        None \<Rightarrow> default_total_calories_needed defaults
      | Some g \<Rightarrow> total_calories_needed g)"

text \<open>A list of rows is newest first when creation times never increase along it.\<close>

definition newest_first :: "StepRecord list \<Rightarrow> bool" where
  "newest_first rows = sorted_wrt (\<lambda>x y. created_at y \<le> created_at x) rows"

text \<open>
  \<open>result\<close> is "the \<open>n\<close> most recent of \<open>rows\<close>, newest first": it has \<open>n\<close> rows (all of
  them when there are fewer, none when \<open>n\<close> is negative), is newest first, is taken from
  \<open>rows\<close>, and no row left out is newer than a row in it. Creation time is the column
  \<open>created_at\<close>; the definition does not say how rows of equal creation time are ordered
  or chosen.
\<close>

definition most_recent :: "int \<Rightarrow> StepRecord list \<Rightarrow> StepRecord list \<Rightarrow> bool" where
  "most_recent n rows result \<longleftrightarrow>
     length result = min (nat n) (length rows)
     \<and> newest_first result
     \<and> mset result \<subseteq># mset rows
     \<and> (\<forall>x \<in># mset rows - mset result. \<forall>y \<in> set result. created_at x \<le> created_at y)"

text \<open>
  The stores the handlers can produce from the empty database that \<^verbatim>\<open>create_tables\<close>
  leaves at startup. The store never assigns a primary key that a step row already has.
\<close>

inductive reachable :: "GoalDefaults \<Rightarrow> store \<Rightarrow> bool" for defaults :: GoalDefaults where
  created: "reachable defaults \<lparr>step_records = [], weight_goals = []\<rparr>"
| added: "reachable defaults db \<Longrightarrow> step_pk a \<notin> id' ` set (step_records db)
          \<Longrightarrow> reachable defaults (fst (add_steps defaults a step_data db))"
| read: "reachable defaults db \<Longrightarrow> reachable defaults (fst (get_dashboard defaults a db))"
| deleted: "reachable defaults db
          \<Longrightarrow> reachable defaults (fst (delete_step_record step_id db))"

section \<open>Example data\<close>

text \<open>
  A run of the application: an empty database, column defaults of a 5 kg goal at 7700
  kcal per kg, and walks logged one per time unit. The rows are written out from the
  spec's example (10000 steps are 7.62 km and 1066.8 kcal), not computed by the handlers.
\<close>

definition empty_store :: store where
  "empty_store = \<lparr>step_records = [], weight_goals = []\<rparr>"

definition example_defaults :: GoalDefaults where
  "example_defaults = \<lparr>default_target_weight_loss_kg = 5,
     default_total_calories_needed = 38500, default_calories_burned_so_far = 0\<rparr>"

definition zero_defaults :: GoalDefaults where
  "zero_defaults = \<lparr>default_target_weight_loss_kg = 0,
     default_total_calories_needed = 0, default_calories_burned_so_far = 0\<rparr>"

definition assigned_at :: "int \<Rightarrow> Assigned" where
  "assigned_at k = \<lparr>step_pk = k, step_now = k, goal_pk = 1, goal_now = k\<rparr>"

definition walk :: "int \<Rightarrow> int \<Rightarrow> StepRecord" where
  "walk k n = \<lparr>steps = n, id' = k, distance_km = real_of_int n * 0.000762,
     calories_burned = real_of_int n * 0.10668, created_at = k\<rparr>"

definition example_goal :: "real \<Rightarrow> WeightGoal" where
  "example_goal c = \<lparr>goal_id = 1, target_weight_loss_kg = 5, total_calories_needed = 38500,
     calories_burned_so_far = c, goal_created_at = 1\<rparr>"

definition one_walk :: store where
  "one_walk = \<lparr>step_records = [walk 1 10000], weight_goals = [example_goal 1066.8]\<rparr>"

definition two_walks :: store where
  "two_walks = \<lparr>step_records = [walk 1 10000, walk 2 5000],
     weight_goals = [example_goal 1600.2]\<rparr>"

definition three_walks :: store where
  "three_walks = \<lparr>step_records = [walk 1 10000, walk 2 5000, walk 3 2000],
     weight_goals = [example_goal 1813.56]\<rparr>"

definition negative_walk :: store where
  "negative_walk = \<lparr>step_records = [walk 1 (- 10000)],
     weight_goals = [example_goal (- 1066.8)]\<rparr>"

definition zero_target :: store where
  "zero_target = \<lparr>step_records = [walk 1 10000],
     weight_goals = [\<lparr>goal_id = 1, target_weight_loss_kg = 0, total_calories_needed = 0,
       calories_burned_so_far = 1066.8, goal_created_at = 1\<rparr>]\<rparr>"

definition one_walk_dashboard :: DashboardResponse where
  "one_walk_dashboard =
     \<lparr>total_steps = 10000, total_distance_km = 7.62, total_calories_burned = 1066.8,
      weight_goal = \<lparr>goal_id = 1, target_weight_loss_kg = 5, total_calories_needed = 38500,
        calories_burned_so_far = 1066.8, goal_created_at = 1,
        progress_percentage = 1066.8 / 385, remaining_calories = 37433.2\<rparr>,
      recent_records = [walk 1 10000]\<rparr>"

definition negative_walk_dashboard :: DashboardResponse where
  "negative_walk_dashboard =
     \<lparr>total_steps = - 10000, total_distance_km = - 7.62, total_calories_burned = - 1066.8,
      weight_goal = \<lparr>goal_id = 1, target_weight_loss_kg = 5, total_calories_needed = 38500,
        calories_burned_so_far = - 1066.8, goal_created_at = 1,
        progress_percentage = - 1066.8 / 385, remaining_calories = 39566.8\<rparr>,
      recent_records = [walk 1 (- 10000)]\<rparr>"

lemmas example_defs = empty_store_def example_defaults_def zero_defaults_def assigned_at_def
  walk_def example_goal_def one_walk_def two_walks_def three_walks_def negative_walk_def
  zero_target_def

lemmas handler_defs = add_steps_def get_dashboard_def get_steps_def delete_step_record_def
  calculate_distance_and_calories_def first_def func_sum_def or_default_def
  order_by_created_at_desc_def limit_def Let_def

section \<open>Facts about rounding\<close>

text \<open>
  The exponent that \<open>floor_log2\<close> finds is the right one, a number in the normal range is
  rounded at a significand of 53 bits, and the rounded number is within half a unit in the
  last place.
\<close>

lemma pow2_power_int: "pow2 k = 2 powi k"
  by (simp add: pow2_def power_int_def inverse_eq_divide power_one_over)

lemma pow2_pos: "0 < pow2 k"
  by (simp add: pow2_power_int)

lemma pow2_Suc: "pow2 (k + 1) = 2 * pow2 k"
  by (simp add: pow2_power_int power_int_add)

lemma round_half_even_error: "\<bar>of_int (round_half_even y) - y\<bar> \<le> 1 / 2"
proof -
  have "of_int \<lfloor>y\<rfloor> \<le> y" "y < of_int \<lfloor>y\<rfloor> + 1" by linarith+
  then show ?thesis
    by (auto simp: round_half_even_def Let_def)
qed

lemma floor_log2_bounds:
  assumes "0 < x"
  shows "pow2 (floor_log2 x) \<le> x \<and> x < pow2 (floor_log2 x + 1)"
proof -
  obtain p q where pq: "quotient_of x = (p, q)" by (cases "quotient_of x")
  then have q: "0 < q" and x: "x = of_int p / of_int q"
    by (auto dest: quotient_of_denom_pos quotient_of_div)
  with assms have p: "0 < p"
    by (simp add: zero_less_divide_iff)
  let ?k = "bitlen p - bitlen q"
  from bitlen_bounds[OF p]
  have pb: "(2::rat) ^ nat (bitlen p - 1) \<le> of_int p"
    "of_int p < (2::rat) ^ nat (bitlen p)"
    by (metis of_int_le_iff of_int_numeral of_int_power,
        metis of_int_less_iff of_int_numeral of_int_power)
  from bitlen_bounds[OF q]
  have qb: "(2::rat) ^ nat (bitlen q - 1) \<le> of_int q"
    "of_int q < (2::rat) ^ nat (bitlen q)"
    by (metis of_int_le_iff of_int_numeral of_int_power,
        metis of_int_less_iff of_int_numeral of_int_power)
  have bp: "1 \<le> bitlen p" and bq: "1 \<le> bitlen q"
    using p q by (auto simp: bitlen_alt_def)
  have P: "(2::rat) ^ nat (bitlen p) = 2 powi bitlen p"
    "(2::rat) ^ nat (bitlen p - 1) = 2 powi (bitlen p - 1)"
    using bp by (simp_all add: power_int_def)
  have Q: "(2::rat) ^ nat (bitlen q) = 2 powi bitlen q"
    "(2::rat) ^ nat (bitlen q - 1) = 2 powi (bitlen q - 1)"
    using bq by (simp_all add: power_int_def)
  have up: "x < pow2 (?k + 1)"
  proof -
    have "of_int p < (2::rat) powi (?k + 1) * 2 powi (bitlen q - 1)"
      using pb(2) by (simp add: P flip: power_int_add)
    also have "\<dots> \<le> 2 powi (?k + 1) * of_int q"
      using qb(1) by (simp add: Q)
    finally show ?thesis using q by (simp add: x pow2_power_int pos_divide_less_eq)
  qed
  have low: "pow2 (?k - 1) < x"
  proof -
    have "(2::rat) powi (?k - 1) * of_int q < 2 powi (?k - 1) * 2 powi bitlen q"
      using qb(2) by (simp add: Q)
    also have "\<dots> = 2 powi (bitlen p - 1)"
      by (simp flip: power_int_add)
    also have "\<dots> \<le> of_int p" using pb(1) by (simp add: P)
    finally show ?thesis using q by (simp add: x pow2_power_int pos_less_divide_eq)
  qed
  show ?thesis
  proof (cases "pow2 ?k \<le> x")
    case True
    then have "floor_log2 x = ?k" by (simp add: floor_log2_def pq)
    with True up show ?thesis by simp
  next
    case False
    then have "floor_log2 x = ?k - 1" by (simp add: floor_log2_def pq)
    with False low show ?thesis by simp
  qed
qed

lemma significand_bounds:
  assumes "x \<noteq> 0"
  shows "2 ^ 52 \<le> \<bar>x\<bar> / pow2 (floor_log2 \<bar>x\<bar> - 52)
       \<and> \<bar>x\<bar> / pow2 (floor_log2 \<bar>x\<bar> - 52) < 2 ^ 53"
proof -
  let ?e = "floor_log2 \<bar>x\<bar>"
  from assms have "0 < \<bar>x\<bar>" by simp
  from floor_log2_bounds[OF this]
  have b: "pow2 ?e \<le> \<bar>x\<bar>" "\<bar>x\<bar> < pow2 (?e + 1)" by simp_all
  have e: "pow2 ?e = 2 ^ 52 * pow2 (?e - 52)" "pow2 (?e + 1) = 2 ^ 53 * pow2 (?e - 52)"
    by (simp_all add: pow2_power_int power_int_diff power_int_add)
  have u: "0 < pow2 (?e - 52)" by (rule pow2_pos)
  from b show ?thesis
    unfolding e using u by (simp add: pos_le_divide_eq pos_divide_less_eq)
qed

lemma round_double_error:
  assumes "x \<noteq> 0"
  shows "\<bar>round_double x - x\<bar> \<le> pow2 (max (floor_log2 \<bar>x\<bar>) (- 1022) - 52) / 2"
proof -
  let ?u = "pow2 (max (floor_log2 \<bar>x\<bar>) (- 1022) - 52)"
  have u: "0 < ?u" by (rule pow2_pos)
  have "round_double x - x = (of_int (round_half_even (x / ?u)) - x / ?u) * ?u"
    using assms u by (simp add: round_double_def Let_def algebra_simps)
  then have "\<bar>round_double x - x\<bar> = \<bar>of_int (round_half_even (x / ?u)) - x / ?u\<bar> * ?u"
    using u by (simp add: abs_mult)
  also have "\<dots> \<le> 1 / 2 * ?u"
    using round_half_even_error[of "x / ?u"] u by (intro mult_right_mono) auto
  finally show ?thesis by simp
qed

section \<open>Facts about the queries\<close>

lemma or_default_func_sum: "or_default (func_sum xs) 0 = sum_list xs"
  by (simp add: or_default_def func_sum_def)

lemma first_filter_None: "first (filter P xs) = None \<longleftrightarrow> (\<forall>x\<in>set xs. \<not> P x)"
proof (cases "filter P xs")
  case Nil
  then show ?thesis by (simp add: first_def filter_empty_conv)
next
  case (Cons y ys)
  then have "y \<in> set (filter P xs)" by simp
  then have "\<exists>x\<in>set xs. P x" by auto
  with Cons show ?thesis by (simp add: first_def)
qed

lemma first_filter_Some: "first (filter P xs) = Some r \<Longrightarrow> P r \<and> r \<in> set xs"
proof -
  assume "first (filter P xs) = Some r"
  then obtain ys where "filter P xs = r # ys"
    by (auto simp: first_def split: list.splits)
  then have "r \<in> set (filter P xs)"
    by (metis list.set_intros(1))
  then show ?thesis by simp
qed

lemma newest_first_order_by: "newest_first (order_by_created_at_desc rows)"
proof -
  have "sorted (map (\<lambda>r. - created_at r) (sort_key (\<lambda>r. - created_at r) rows))"
    by (rule sorted_sort_key)
  then show ?thesis
    by (simp add: newest_first_def order_by_created_at_desc_def sorted_map)
qed

lemma mset_order_by: "mset (order_by_created_at_desc rows) = mset rows"
  by (simp add: order_by_created_at_desc_def)

lemma sorted_wrt_take_drop:
  assumes "sorted_wrt R xs" "x \<in> set (take k xs)" "y \<in> set (drop k xs)"
  shows "R x y"
proof -
  have "sorted_wrt R (take k xs @ drop k xs)" using assms(1) by simp
  then show ?thesis using assms(2,3) unfolding sorted_wrt_append by blast
qed

lemma most_recent_take:
  shows "most_recent n rows (take (nat n) (order_by_created_at_desc rows))"
proof -
  let ?s = "order_by_created_at_desc rows"
  let ?k = "nat n"
  have len: "length (take ?k ?s) = min (nat n) (length rows)"
    by (simp add: order_by_created_at_desc_def)
  have srt: "newest_first (take ?k ?s)"
    using newest_first_order_by[of rows] unfolding newest_first_def
    by (rule sorted_wrt_take)
  have split: "mset rows = mset (take ?k ?s) + mset (drop ?k ?s)"
    by (metis append_take_drop_id mset_append mset_order_by)
  have sub: "mset (take ?k ?s) \<subseteq># mset rows"
    by (simp add: split)
  have rest: "mset rows - mset (take ?k ?s) = mset (drop ?k ?s)"
    by (simp add: split)
  have dom: "\<forall>x \<in># mset rows - mset (take ?k ?s). \<forall>y \<in> set (take ?k ?s).
      created_at x \<le> created_at y"
  proof (intro ballI)
    fix x y
    assume "x \<in># mset rows - mset (take ?k ?s)" and y: "y \<in> set (take ?k ?s)"
    then have x: "x \<in> set (drop ?k ?s)" by (simp add: rest)
    from sorted_wrt_take_drop[OF newest_first_order_by[unfolded newest_first_def] y x]
    show "created_at x \<le> created_at y" .
  qed
  from len srt sub dom show ?thesis unfolding most_recent_def by blast
qed

lemma order_by_three:
  assumes "created_at r1 < created_at r2" "created_at r2 < created_at r3"
  shows "order_by_created_at_desc [r1, r2, r3] = [r3, r2, r1]"
  using assms by (simp add: order_by_created_at_desc_def)

lemma insort_key_behind:
  "\<forall>l\<in>set ls. f l < f x \<Longrightarrow> insort_key f x (ls @ ms) = ls @ insort_key f x ms"
  by (induction ls) auto

lemma foldr_insort_key_behind:
  "\<forall>x\<in>set xs. \<forall>l\<in>set ls. f l < f x
     \<Longrightarrow> foldr (insort_key f) xs ls = ls @ foldr (insort_key f) xs []"
proof (induction xs)
  case Nil
  show ?case by simp
next
  case (Cons x xs)
  then have "foldr (insort_key f) xs ls = ls @ foldr (insort_key f) xs []" by simp
  moreover from Cons.prems have "\<forall>l\<in>set ls. f l < f x" by simp
  ultimately show ?case by (simp add: insort_key_behind)
qed

lemma order_by_older_then_three:
  assumes "\<forall>x\<in>set xs. created_at x < created_at r1"
    and "created_at r1 < created_at r2" "created_at r2 < created_at r3"
  shows "order_by_created_at_desc (xs @ [r1, r2, r3])
           = [r3, r2, r1] @ order_by_created_at_desc xs"
proof -
  let ?f = "\<lambda>r. - created_at r"
  have three: "foldr (insort_key ?f) [r1, r2, r3] [] = [r3, r2, r1]"
    using assms(2,3) by simp
  have "\<forall>x\<in>set xs. \<forall>l\<in>set [r3, r2, r1]. ?f l < ?f x"
    using assms by auto
  then have "foldr (insort_key ?f) xs [r3, r2, r1]
      = [r3, r2, r1] @ foldr (insort_key ?f) xs []"
    by (rule foldr_insort_key_behind)
  with three show ?thesis
    by (simp add: order_by_created_at_desc_def sort_key_def)
qed

lemma filter_other_ids_remove1:
  assumes "distinct (map id' rows)" "r \<in> set rows"
  shows "filter (\<lambda>x. id' x \<noteq> id' r) rows = remove1 r rows"
  using assms
proof (induction rows)
  case Nil
  then show ?case by simp
next
  case (Cons x xs)
  show ?case
  proof (cases "x = r")
    case True
    with Cons.prems(1) have "id' r \<notin> id' ` set xs" by simp
    then have "\<forall>y\<in>set xs. id' y \<noteq> id' r" by (metis imageI)
    then have "filter (\<lambda>y. id' y \<noteq> id' r) xs = xs" by (simp add: filter_id_conv)
    with True show ?thesis by simp
  next
    case False
    with Cons.prems have mem: "r \<in> set xs" and d: "distinct (map id' xs)" by auto
    from Cons.prems(1) mem have "id' x \<noteq> id' r" by auto
    with False Cons.IH[OF d mem] show ?thesis by simp
  qed
qed

section \<open>Facts about the handlers\<close>

lemma step_records_delete:
  "step_records (fst (delete_step_record i db))
     = filter (\<lambda>r. id' r \<noteq> i) (step_records db)"
proof (cases "first (filter (\<lambda>r. id' r = i) (step_records db))")
  case None
  then have "\<forall>r\<in>set (step_records db). id' r \<noteq> i"
    by (simp add: first_filter_None)
  then have "filter (\<lambda>r. id' r \<noteq> i) (step_records db) = step_records db"
    by (simp add: filter_id_conv)
  with None show ?thesis by (simp add: delete_step_record_def)
next
  case (Some r)
  then have "id' r = i" by (auto dest: first_filter_Some)
  with Some show ?thesis by (simp add: delete_step_record_def)
qed

lemma weight_goals_delete:
  "weight_goals (fst (delete_step_record i db)) = weight_goals db"
  by (simp add: delete_step_record_def split: option.splits)

lemma step_records_get_dashboard:
  "step_records (fst (get_dashboard defaults a db)) = step_records db"
  by (simp add: get_dashboard_def Let_def split: option.splits prod.splits)

lemma first_goal_get_dashboard:
  "map_option calories_burned_so_far
     (first (weight_goals (fst (get_dashboard defaults a db))))
     = Some (sum_list (map calories_burned (step_records db)))"
  by (simp add: get_dashboard_def Let_def first_def or_default_func_sum split: list.splits)

lemma goal_after_get_dashboard:
  "\<exists>g. first (weight_goals (fst (get_dashboard defaults a db))) = Some g
     \<and> calories_burned_so_far g = sum_list (map calories_burned (step_records db))
     \<and> total_calories_needed g = goal_target defaults db"
  by (simp add: get_dashboard_def Let_def first_def goal_target_def or_default_func_sum
      split: list.splits)

lemma weight_goals_get_dashboard:
  "length (weight_goals (fst (get_dashboard defaults a db)))
     = max 1 (length (weight_goals db))"
  by (simp add: get_dashboard_def Let_def first_def split: list.splits)

text \<open>The answer of a dashboard read, in closed form.\<close>

lemma snd_get_dashboard:
  "snd (get_dashboard defaults a db) =
     (if goal_target defaults db = 0 then Inl ZeroDivisionError
      else Inr
        \<lparr>total_steps = sum_list (map steps (step_records db)),
         total_distance_km = sum_list (map distance_km (step_records db)),
         total_calories_burned = sum_list (map calories_burned (step_records db)),
         weight_goal =
           \<lparr>goal_id =
              (case first (weight_goals db) of None \<Rightarrow> goal_pk a | Some g \<Rightarrow> goal_id g),
            target_weight_loss_kg =
              (case first (weight_goals db) of
                 None \<Rightarrow> default_target_weight_loss_kg defaults
               | Some g \<Rightarrow> target_weight_loss_kg g),
            total_calories_needed = goal_target defaults db,
            calories_burned_so_far = sum_list (map calories_burned (step_records db)),
            goal_created_at =
              (case first (weight_goals db) of
                 None \<Rightarrow> goal_now a
               | Some g \<Rightarrow> goal_created_at g),
            progress_percentage =
              min (sum_list (map calories_burned (step_records db))
                     / goal_target defaults db * 100) 100,
            remaining_calories =
              max (goal_target defaults db
                     - sum_list (map calories_burned (step_records db))) 0\<rparr>,
         recent_records = take 5 (order_by_created_at_desc (step_records db))\<rparr>)"
  by (simp add: get_dashboard_def Let_def first_def goal_target_def or_default_func_sum
      split: list.splits)

lemma goal_target_add_steps:
  "goal_target defaults (fst (add_steps defaults a sd db)) = goal_target defaults db"
  by (simp add: add_steps_def goal_target_def first_def Let_def
      split: list.splits prod.splits)

lemma weight_goals_add_steps:
  "length (weight_goals (fst (add_steps defaults a sd db)))
     = max 1 (length (weight_goals db))"
  by (simp add: add_steps_def Let_def first_def split: list.splits prod.splits)

lemma step_records_add_steps:
  "step_records (fst (add_steps defaults a sd db))
     = step_records db @ [snd (add_steps defaults a sd db)]"
  by (simp add: add_steps_def Let_def split: prod.splits)

lemma snd_add_steps:
  "snd (add_steps defaults a sd db) =
     \<lparr>steps = steps sd, id' = step_pk a,
      distance_km = fst (calculate_distance_and_calories (steps sd)),
      calories_burned = snd (calculate_distance_and_calories (steps sd)),
      created_at = step_now a\<rparr>"
  by (simp add: add_steps_def Let_def split: prod.splits)

text \<open>Primary keys stay unique, and there is never more than one goal row.\<close>

lemma reachable_distinct_ids:
  "reachable defaults db \<Longrightarrow> distinct (map id' (step_records db))"
proof (induction rule: reachable.induct)
  case created
  show ?case by simp
next
  case (added db a step_data)
  then show ?case by (simp add: step_records_add_steps snd_add_steps)
next
  case (read db a)
  then show ?case by (simp add: step_records_get_dashboard)
next
  case (deleted db step_id)
  then show ?case by (simp add: step_records_delete distinct_map_filter)
qed

lemma reachable_one_goal: "reachable defaults db \<Longrightarrow> length (weight_goals db) \<le> 1"
proof (induction rule: reachable.induct)
  case created
  show ?case by simp
next
  case (added db a step_data)
  then show ?case by (simp add: weight_goals_add_steps)
next
  case (read db a)
  then show ?case by (simp add: weight_goals_get_dashboard)
next
  case (deleted db step_id)
  then show ?case by (simp add: weight_goals_delete)
qed

section \<open>The example run\<close>

lemma add_first_walk:
  "add_steps example_defaults (assigned_at 1) \<lparr>steps = 10000\<rparr> empty_store
     = (one_walk, walk 1 10000)"
  by (simp add: example_defs handler_defs)

lemma add_second_walk:
  "add_steps example_defaults (assigned_at 2) \<lparr>steps = 5000\<rparr> one_walk
     = (two_walks, walk 2 5000)"
  by (simp add: example_defs handler_defs)

lemma add_third_walk:
  "add_steps example_defaults (assigned_at 3) \<lparr>steps = 2000\<rparr> two_walks
     = (three_walks, walk 3 2000)"
  by (simp add: example_defs handler_defs)

lemma add_negative_walk:
  "add_steps example_defaults (assigned_at 1) \<lparr>steps = - 10000\<rparr> empty_store
     = (negative_walk, walk 1 (- 10000))"
  by (simp add: example_defs handler_defs)

lemma add_walk_zero_defaults:
  "add_steps zero_defaults (assigned_at 1) \<lparr>steps = 10000\<rparr> empty_store
     = (zero_target, walk 1 10000)"
  by (simp add: example_defs handler_defs)

lemma read_one_walk:
  "get_dashboard example_defaults (assigned_at 2) one_walk
     = (one_walk, Inr one_walk_dashboard)"
  by (simp add: example_defs handler_defs one_walk_dashboard_def)

lemma read_negative_walk:
  "get_dashboard example_defaults (assigned_at 2) negative_walk
     = (negative_walk, Inr negative_walk_dashboard)"
  by (simp add: example_defs handler_defs negative_walk_dashboard_def)


lemma reachable_one_walk: "reachable example_defaults one_walk"
proof -
  have "reachable example_defaults empty_store"
    unfolding empty_store_def by (rule reachable.created)
  then have "reachable example_defaults
      (fst (add_steps example_defaults (assigned_at 1) \<lparr>steps = 10000\<rparr> empty_store))"
    by (rule reachable.added) (simp add: empty_store_def)
  then show ?thesis by (simp add: add_first_walk)
qed

lemma reachable_two_walks: "reachable example_defaults two_walks"
proof -
  have "reachable example_defaults
      (fst (add_steps example_defaults (assigned_at 2) \<lparr>steps = 5000\<rparr> one_walk))"
    using reachable_one_walk
    by (rule reachable.added) (simp add: example_defs)
  then show ?thesis by (simp add: add_second_walk)
qed

lemma reachable_zero_target: "reachable zero_defaults zero_target"
proof -
  have "reachable zero_defaults empty_store"
    unfolding empty_store_def by (rule reachable.created)
  then have "reachable zero_defaults
      (fst (add_steps zero_defaults (assigned_at 1) \<lparr>steps = 10000\<rparr> empty_store))"
    by (rule reachable.added) (simp add: empty_store_def)
  then show ?thesis by (simp add: add_walk_zero_defaults)
qed

section \<open>The conversion function\<close>

text \<open>
  C1. For every step count \<open>s\<close> (so for every \<open>s \<ge> 0\<close>) the conversion returns
  \<open>distance_km = s * 0.762 / 1000\<close> and \<open>calories_burned = distance_km / 5.0 * 700\<close>,
  which is \<open>s * 0.762 / 1000 / 5.0 * 700\<close>; the result is a function of \<open>s\<close> alone, and
  for \<open>s = 0\<close> both outputs are 0.
\<close>

theorem calculate_distance_and_calories_formula:
  "fst (calculate_distance_and_calories s) = real_of_int s * 0.762 / 1000
   \<and> snd (calculate_distance_and_calories s)
       = fst (calculate_distance_and_calories s) / 5.0 * 700
   \<and> snd (calculate_distance_and_calories s) = real_of_int s * 0.762 / 1000 / 5.0 * 700
   \<and> calculate_distance_and_calories 0 = (0, 0)"
  by (simp add: calculate_distance_and_calories_def Let_def)

section \<open>The dashboard\<close>

text \<open>
  C2, as amended. Whenever the dashboard read completes, the progress it returns is
  \<open>min (calories_burned_so_far / total_calories_needed * 100) 100\<close> of the goal row it
  has just written, whose \<open>calories_burned_so_far\<close> is the sum over the step rows of the
  store and whose \<open>total_calories_needed\<close> is the target of the goal row the read found
  (or the column default); the response repeats both fields. Hence the progress is at
  most 100. It is at least 0 when the target is positive and no step row has negative
  calories. (There is no lower clamp: see the counterexample.)
\<close>

theorem progress_percentage_at_most_100:
  assumes "get_dashboard defaults a db = (db', Inr resp)"
  shows "progress_percentage (weight_goal resp)
           = min (sum_list (map calories_burned (step_records db))
                    / goal_target defaults db * 100) 100
         \<and> (\<exists>g. first (weight_goals db') = Some g
                \<and> calories_burned_so_far g
                    = sum_list (map calories_burned (step_records db))
                \<and> total_calories_needed g = goal_target defaults db
                \<and> calories_burned_so_far (weight_goal resp) = calories_burned_so_far g
                \<and> total_calories_needed (weight_goal resp) = total_calories_needed g
                \<and> progress_percentage (weight_goal resp)
                    = min (calories_burned_so_far g / total_calories_needed g * 100) 100)
         \<and> progress_percentage (weight_goal resp)
             = min (calories_burned_so_far (weight_goal resp)
                      / total_calories_needed (weight_goal resp) * 100) 100
         \<and> progress_percentage (weight_goal resp) \<le> 100
         \<and> (0 < total_calories_needed (weight_goal resp)
              \<and> (\<forall>r\<in>set (step_records db). 0 \<le> calories_burned r)
            \<longrightarrow> 0 \<le> progress_percentage (weight_goal resp))"
proof -
  let ?c = "sum_list (map calories_burned (step_records db))"
  let ?t = "goal_target defaults db"
  from assms have res: "snd (get_dashboard defaults a db) = Inr resp"
    and st: "fst (get_dashboard defaults a db) = db'" by simp_all
  have nz: "?t \<noteq> 0"
    using res by (auto simp: snd_get_dashboard)
  from res nz have p: "progress_percentage (weight_goal resp) = min (?c / ?t * 100) 100"
    and c: "calories_burned_so_far (weight_goal resp) = ?c"
    and t: "total_calories_needed (weight_goal resp) = ?t"
    by (auto simp: snd_get_dashboard)
  from goal_after_get_dashboard[of defaults a db] st
  obtain g where g: "first (weight_goals db') = Some g" "calories_burned_so_far g = ?c"
      "total_calories_needed g = ?t"
    by auto
  have row: "\<exists>g. first (weight_goals db') = Some g
                \<and> calories_burned_so_far g = ?c
                \<and> total_calories_needed g = ?t
                \<and> calories_burned_so_far (weight_goal resp) = calories_burned_so_far g
                \<and> total_calories_needed (weight_goal resp) = total_calories_needed g
                \<and> progress_percentage (weight_goal resp)
                    = min (calories_burned_so_far g / total_calories_needed g * 100) 100"
    using g p c t by simp
  have nonneg: "0 \<le> ?c" if "\<forall>r\<in>set (step_records db). 0 \<le> calories_burned r"
    using that by (intro sum_list_nonneg) auto
  have fields: "progress_percentage (weight_goal resp)
             = min (calories_burned_so_far (weight_goal resp)
                      / total_calories_needed (weight_goal resp) * 100) 100"
    using p c t by simp
  have upper: "progress_percentage (weight_goal resp) \<le> 100"
    using p by simp
  have lower: "0 < total_calories_needed (weight_goal resp)
              \<and> (\<forall>r\<in>set (step_records db). 0 \<le> calories_burned r)
            \<longrightarrow> 0 \<le> progress_percentage (weight_goal resp)"
    using nonneg p t by (auto simp: min_def)
  from p row fields upper lower show ?thesis by blast
qed

theorem progress_percentage_at_most_100_witness:
  "get_dashboard example_defaults (assigned_at 2) one_walk
     = (one_walk, Inr one_walk_dashboard)
   \<and> sum_list (map calories_burned (step_records one_walk)) = 1066.8
   \<and> goal_target example_defaults one_walk = 38500
   \<and> first (weight_goals one_walk) = Some (example_goal 1066.8)
   \<and> progress_percentage (weight_goal one_walk_dashboard) = min (1066.8 / 38500 * 100) 100
   \<and> 0 < total_calories_needed (weight_goal one_walk_dashboard)
   \<and> step_records one_walk = [walk 1 10000] \<and> 0 \<le> calories_burned (walk 1 10000)
   \<and> progress_percentage (weight_goal one_walk_dashboard)
       = min (calories_burned_so_far (weight_goal one_walk_dashboard)
                / total_calories_needed (weight_goal one_walk_dashboard) * 100) 100
   \<and> progress_percentage (weight_goal one_walk_dashboard) \<le> 100
   \<and> 0 \<le> progress_percentage (weight_goal one_walk_dashboard)"
proof -
  have pos: "0 < total_calories_needed (weight_goal one_walk_dashboard)"
    by (simp add: one_walk_dashboard_def)
  have rows: "\<forall>r\<in>set (step_records one_walk). 0 \<le> calories_burned r"
    by (simp add: one_walk_def walk_def)
  have row: "step_records one_walk = [walk 1 10000] \<and> 0 \<le> calories_burned (walk 1 10000)"
    by (simp add: one_walk_def walk_def)
  have total: "sum_list (map calories_burned (step_records one_walk)) = 1066.8"
    by (simp add: one_walk_def walk_def)
  have target: "goal_target example_defaults one_walk = 38500"
    by (simp add: goal_target_def first_def one_walk_def example_goal_def)
  have goal: "first (weight_goals one_walk) = Some (example_goal 1066.8)"
    by (simp add: first_def one_walk_def)
  note inst = progress_percentage_at_most_100 [OF read_one_walk]
  from inst have "progress_percentage (weight_goal one_walk_dashboard)
           = min (sum_list (map calories_burned (step_records one_walk))
                    / goal_target example_defaults one_walk * 100) 100"
    by blast
  then have stored: "progress_percentage (weight_goal one_walk_dashboard)
      = min (1066.8 / 38500 * 100) 100"
    by (simp only: total target)
  from inst pos rows
  have fields: "progress_percentage (weight_goal one_walk_dashboard)
          = min (calories_burned_so_far (weight_goal one_walk_dashboard)
                   / total_calories_needed (weight_goal one_walk_dashboard) * 100) 100"
    and upper: "progress_percentage (weight_goal one_walk_dashboard) \<le> 100"
    and lower: "0 \<le> progress_percentage (weight_goal one_walk_dashboard)"
    by blast+
  from read_one_walk total target goal stored pos row fields upper lower
  show ?thesis by blast
qed

text \<open>
  C2 as stated fails: the request body's \<open>steps\<close> is any integer. After
  \<^verbatim>\<open>POST /steps {"steps": -10000}\<close> on the empty database the dashboard read completes and
  returns a progress of \<open>-1066.8 / 385\<close>, which is below 0.
\<close>

theorem progress_percentage_negative_counterexample:
  "get_dashboard example_defaults (assigned_at 2)
     (fst (add_steps example_defaults (assigned_at 1) \<lparr>steps = - 10000\<rparr> empty_store))
     = (negative_walk, Inr negative_walk_dashboard)
   \<and> progress_percentage (weight_goal negative_walk_dashboard) = - 1066.8 / 385
   \<and> progress_percentage (weight_goal negative_walk_dashboard) < 0"
  by (simp add: add_negative_walk read_negative_walk)
    (simp add: negative_walk_dashboard_def)

text \<open>
  C3. After every dashboard read, also one that raises, the goal row the handlers use
  holds in \<open>calories_burned_so_far\<close> the sum of \<open>calories_burned\<close> over the step rows in
  the store (0 for none); in a reachable store that row is the only goal row. A delete
  leaves the goal rows as they are, and the next dashboard read sets the value to the sum
  over the rows that remain.
\<close>

theorem dashboard_recomputes_calories_burned_so_far:
  "map_option calories_burned_so_far
     (first (weight_goals (fst (get_dashboard defaults a db))))
     = Some (sum_list (map calories_burned
               (step_records (fst (get_dashboard defaults a db)))))
   \<and> step_records (fst (get_dashboard defaults a db)) = step_records db
   \<and> (reachable defaults db \<longrightarrow>
        (\<exists>g. weight_goals (fst (get_dashboard defaults a db)) = [g]
           \<and> calories_burned_so_far g
               = sum_list (map calories_burned
                   (step_records (fst (get_dashboard defaults a db))))))
   \<and> weight_goals (fst (delete_step_record step_id db)) = weight_goals db
   \<and> map_option calories_burned_so_far
        (first (weight_goals
           (fst (get_dashboard defaults a (fst (delete_step_record step_id db))))))
       = Some (sum_list (map calories_burned
                 (filter (\<lambda>r. id' r \<noteq> step_id) (step_records db))))"
proof -
  let ?db' = "fst (get_dashboard defaults a db)"
  have head: "map_option calories_burned_so_far (first (weight_goals ?db'))
      = Some (sum_list (map calories_burned (step_records ?db')))"
    by (simp add: first_goal_get_dashboard step_records_get_dashboard)
  have single: "\<exists>g. weight_goals ?db' = [g]
           \<and> calories_burned_so_far g = sum_list (map calories_burned (step_records ?db'))"
    if "reachable defaults db"
  proof -
    from that have "length (weight_goals db) \<le> 1" by (rule reachable_one_goal)
    then have "length (weight_goals ?db') = 1"
      by (simp add: weight_goals_get_dashboard)
    then obtain g where g: "weight_goals ?db' = [g]"
      by (cases "weight_goals ?db'") auto
    with head show ?thesis by (simp add: first_def)
  qed
  from head single show ?thesis
    by (simp add: first_goal_get_dashboard step_records_get_dashboard weight_goals_delete
        step_records_delete)
qed

theorem dashboard_recomputes_calories_burned_so_far_witness:
  "reachable example_defaults two_walks
   \<and> weight_goals (fst (get_dashboard example_defaults (assigned_at 3) two_walks))
       = [example_goal 1600.2]
   \<and> weight_goals (fst (delete_step_record 1 two_walks)) = [example_goal 1600.2]
   \<and> step_records (fst (delete_step_record 1 two_walks)) = [walk 2 5000]
   \<and> map_option calories_burned_so_far
        (first (weight_goals
           (fst (get_dashboard example_defaults (assigned_at 3)
              (fst (delete_step_record 1 two_walks))))))
       = Some 533.4"
  using dashboard_recomputes_calories_burned_so_far
      [where defaults = example_defaults and a = "assigned_at 3" and db = two_walks
        and step_id = 1]
    reachable_two_walks
  by (simp add: example_defs handler_defs)

text \<open>
  C4. From a store with no step rows, a dashboard read reports the totals 0, 0.0 and 0.0
  (numbers, not null), and after add-steps with \<open>s1\<close> and then with \<open>s2\<close> it reports
  \<open>total_steps = s1 + s2\<close> and \<open>total_calories_burned = calories s1 + calories s2\<close> (and
  the distances likewise). The read reports at all when the target of the goal it works
  on is not 0.
\<close>

theorem dashboard_totals_after_adds:
  assumes "step_records db = []" and "goal_target defaults db \<noteq> 0"
  shows "(\<exists>resp. snd (get_dashboard defaults a db) = Inr resp
            \<and> total_steps resp = 0 \<and> total_distance_km resp = 0
            \<and> total_calories_burned resp = 0)
       \<and> (\<exists>resp. snd (get_dashboard defaults a
                     (fst (add_steps defaults a2 \<lparr>steps = s2\<rparr>
                        (fst (add_steps defaults a1 \<lparr>steps = s1\<rparr> db))))) = Inr resp
            \<and> total_steps resp = s1 + s2
            \<and> total_distance_km resp
                = fst (calculate_distance_and_calories s1)
                  + fst (calculate_distance_and_calories s2)
            \<and> total_calories_burned resp
                = snd (calculate_distance_and_calories s1)
                  + snd (calculate_distance_and_calories s2))"
proof -
  let ?db1 = "fst (add_steps defaults a1 \<lparr>steps = s1\<rparr> db)"
  let ?db2 = "fst (add_steps defaults a2 \<lparr>steps = s2\<rparr> ?db1)"
  have t2: "goal_target defaults ?db2 \<noteq> 0"
    using assms(2) by (simp add: goal_target_add_steps)
  have rows: "step_records ?db2
      = [snd (add_steps defaults a1 \<lparr>steps = s1\<rparr> db),
         snd (add_steps defaults a2 \<lparr>steps = s2\<rparr> ?db1)]"
    using assms(1) by (simp add: step_records_add_steps)
  have none: "\<exists>resp. snd (get_dashboard defaults a db) = Inr resp
            \<and> total_steps resp = 0 \<and> total_distance_km resp = 0
            \<and> total_calories_burned resp = 0"
    using assms by (simp add: snd_get_dashboard)
  have two: "\<exists>resp. snd (get_dashboard defaults a ?db2) = Inr resp
            \<and> total_steps resp = s1 + s2
            \<and> total_distance_km resp
                = fst (calculate_distance_and_calories s1)
                  + fst (calculate_distance_and_calories s2)
            \<and> total_calories_burned resp
                = snd (calculate_distance_and_calories s1)
                  + snd (calculate_distance_and_calories s2)"
    using t2 by (simp add: snd_get_dashboard rows snd_add_steps)
  from none two show ?thesis by blast
qed

theorem dashboard_totals_after_adds_witness:
  "step_records empty_store = [] \<and> goal_target example_defaults empty_store \<noteq> 0
   \<and> (\<exists>resp. snd (get_dashboard example_defaults (assigned_at 3) empty_store) = Inr resp
         \<and> total_steps resp = 0 \<and> total_distance_km resp = 0
         \<and> total_calories_burned resp = 0)
   \<and> (\<exists>resp. snd (get_dashboard example_defaults (assigned_at 3) two_walks) = Inr resp
         \<and> total_steps resp = 15000 \<and> total_distance_km resp = 11.43
         \<and> total_calories_burned resp = 1600.2)"
proof -
  have rows: "step_records empty_store = []"
    by (simp add: empty_store_def)
  have target: "goal_target example_defaults empty_store \<noteq> 0"
    by (simp add: goal_target_def first_def empty_store_def example_defaults_def)
  have calc: "calculate_distance_and_calories 10000 = (7.62, 1066.8)"
    "calculate_distance_and_calories 5000 = (3.81, 533.4)"
    by (simp_all add: calculate_distance_and_calories_def Let_def)
  show ?thesis
    using dashboard_totals_after_adds [where db = empty_store
        and defaults = example_defaults and a = "assigned_at 3"
        and ?a1.0 = "assigned_at 1" and ?s1.0 = 10000
        and ?a2.0 = "assigned_at 2" and ?s2.0 = 5000, OF rows target]
      rows target
    by (simp add: add_first_walk add_second_walk calc)
qed

text \<open>
  C6. When the goal row has \<open>total_calories_needed = 0\<close>, the progress computation of
  the dashboard read divides by zero: the read raises and returns no response. This holds
  for the goal row the read works on (the first one) in any store, and so for any goal
  row of a reachable store, which has no second one.
\<close>

theorem dashboard_zero_target_raises:
  "(weight_goals db = g # gs \<and> total_calories_needed g = 0 \<longrightarrow>
      snd (get_dashboard defaults a db) = Inl ZeroDivisionError)
   \<and> (reachable defaults db \<and> g \<in> set (weight_goals db) \<and> total_calories_needed g = 0
        \<longrightarrow> snd (get_dashboard defaults a db) = Inl ZeroDivisionError)"
proof (intro conjI impI)
  assume "weight_goals db = g # gs \<and> total_calories_needed g = 0"
  then show "snd (get_dashboard defaults a db) = Inl ZeroDivisionError"
    by (simp add: snd_get_dashboard goal_target_def first_def)
next
  assume h: "reachable defaults db \<and> g \<in> set (weight_goals db)
      \<and> total_calories_needed g = 0"
  then have "reachable defaults db" by simp
  then have "length (weight_goals db) \<le> 1" by (rule reachable_one_goal)
  with h have "weight_goals db = [g]"
    by (cases "weight_goals db") auto
  with h show "snd (get_dashboard defaults a db) = Inl ZeroDivisionError"
    by (simp add: snd_get_dashboard goal_target_def first_def)
qed

theorem dashboard_zero_target_raises_witness:
  "weight_goals zero_target = hd (weight_goals zero_target) # []
   \<and> total_calories_needed (hd (weight_goals zero_target)) = 0
   \<and> reachable zero_defaults zero_target
   \<and> hd (weight_goals zero_target) \<in> set (weight_goals zero_target)
   \<and> snd (get_dashboard zero_defaults (assigned_at 2) zero_target)
       = Inl ZeroDivisionError"
proof -
  have goals: "weight_goals zero_target = hd (weight_goals zero_target) # []"
    by (simp add: zero_target_def)
  have zero: "total_calories_needed (hd (weight_goals zero_target)) = 0"
    by (simp add: zero_target_def)
  have mem: "hd (weight_goals zero_target) \<in> set (weight_goals zero_target)"
    by (simp add: zero_target_def)
  show ?thesis
    using dashboard_zero_target_raises [where db = zero_target
        and g = "hd (weight_goals zero_target)" and gs = "[]"
        and defaults = zero_defaults and a = "assigned_at 2"]
      goals zero mem reachable_zero_target
    by blast
qed

text \<open>
  C8. Whenever the dashboard read completes, the remaining calories it returns are
  \<open>max (total_calories_needed - calories_burned_so_far) 0\<close> of the goal row it has just
  written, whose \<open>calories_burned_so_far\<close> is the sum over the step rows of the store and
  whose \<open>total_calories_needed\<close> is the target of the goal row the read found (or the
  column default); the response repeats both fields. Hence they are never negative.
\<close>

theorem remaining_calories_clamped:
  assumes "get_dashboard defaults a db = (db', Inr resp)"
  shows "remaining_calories (weight_goal resp)
           = max (goal_target defaults db
                    - sum_list (map calories_burned (step_records db))) 0
         \<and> (\<exists>g. first (weight_goals db') = Some g
                \<and> calories_burned_so_far g
                    = sum_list (map calories_burned (step_records db))
                \<and> total_calories_needed g = goal_target defaults db
                \<and> calories_burned_so_far (weight_goal resp) = calories_burned_so_far g
                \<and> total_calories_needed (weight_goal resp) = total_calories_needed g
                \<and> remaining_calories (weight_goal resp)
                    = max (total_calories_needed g - calories_burned_so_far g) 0)
         \<and> remaining_calories (weight_goal resp)
             = max (total_calories_needed (weight_goal resp)
                      - calories_burned_so_far (weight_goal resp)) 0
         \<and> 0 \<le> remaining_calories (weight_goal resp)"
proof -
  let ?c = "sum_list (map calories_burned (step_records db))"
  let ?t = "goal_target defaults db"
  from assms have res: "snd (get_dashboard defaults a db) = Inr resp"
    and st: "fst (get_dashboard defaults a db) = db'" by simp_all
  have nz: "?t \<noteq> 0"
    using res by (auto simp: snd_get_dashboard)
  from res nz have m: "remaining_calories (weight_goal resp) = max (?t - ?c) 0"
    and c: "calories_burned_so_far (weight_goal resp) = ?c"
    and t: "total_calories_needed (weight_goal resp) = ?t"
    by (auto simp: snd_get_dashboard)
  from goal_after_get_dashboard[of defaults a db] st
  obtain g where g: "first (weight_goals db') = Some g" "calories_burned_so_far g = ?c"
      "total_calories_needed g = ?t"
    by auto
  have row: "\<exists>g. first (weight_goals db') = Some g
                \<and> calories_burned_so_far g = ?c
                \<and> total_calories_needed g = ?t
                \<and> calories_burned_so_far (weight_goal resp) = calories_burned_so_far g
                \<and> total_calories_needed (weight_goal resp) = total_calories_needed g
                \<and> remaining_calories (weight_goal resp)
                    = max (total_calories_needed g - calories_burned_so_far g) 0"
    using g m c t by simp
  have fields: "remaining_calories (weight_goal resp)
             = max (total_calories_needed (weight_goal resp)
                      - calories_burned_so_far (weight_goal resp)) 0"
    using m c t by simp
  have lower: "0 \<le> remaining_calories (weight_goal resp)"
    using m by simp
  from m row fields lower show ?thesis by blast
qed

theorem remaining_calories_clamped_witness:
  "get_dashboard example_defaults (assigned_at 2) one_walk
     = (one_walk, Inr one_walk_dashboard)
   \<and> sum_list (map calories_burned (step_records one_walk)) = 1066.8
   \<and> goal_target example_defaults one_walk = 38500
   \<and> first (weight_goals one_walk) = Some (example_goal 1066.8)
   \<and> remaining_calories (weight_goal one_walk_dashboard) = max (38500 - 1066.8) 0
   \<and> remaining_calories (weight_goal one_walk_dashboard) = 37433.2
   \<and> 0 \<le> remaining_calories (weight_goal one_walk_dashboard)"
proof -
  have total: "sum_list (map calories_burned (step_records one_walk)) = 1066.8"
    by (simp add: one_walk_def walk_def)
  have target: "goal_target example_defaults one_walk = 38500"
    by (simp add: goal_target_def first_def one_walk_def example_goal_def)
  have goal: "first (weight_goals one_walk) = Some (example_goal 1066.8)"
    by (simp add: first_def one_walk_def)
  have literal: "remaining_calories (weight_goal one_walk_dashboard) = 37433.2"
    by (simp add: one_walk_dashboard_def)
  note inst = remaining_calories_clamped [OF read_one_walk]
  from inst have "remaining_calories (weight_goal one_walk_dashboard)
           = max (goal_target example_defaults one_walk
                    - sum_list (map calories_burned (step_records one_walk))) 0"
    by blast
  then have stored: "remaining_calories (weight_goal one_walk_dashboard)
      = max (38500 - 1066.8) 0"
    by (simp only: total target)
  from inst have lower: "0 \<le> remaining_calories (weight_goal one_walk_dashboard)"
    by blast
  from read_one_walk total target goal stored literal lower
  show ?thesis by blast
qed

section \<open>Adding, listing and deleting step records\<close>

text \<open>
  C5. Deleting a \<open>step_id\<close> that no step row has returns the not-found error (status 404)
  and leaves the whole store as it was. Deleting the id of a row \<open>r\<close> of the store, whose
  primary keys are distinct, returns success, removes exactly \<open>r\<close> and leaves the goal rows
  as they were.
\<close>

theorem delete_step_record_cases:
  "(step_id \<notin> id' ` set (step_records db) \<longrightarrow>
      delete_step_record step_id db
        = (db, Inl (HTTPException 404 ''Step record not found'')))
   \<and> (r \<in> set (step_records db) \<and> id' r = step_id
        \<and> distinct (map id' (step_records db)) \<longrightarrow>
      snd (delete_step_record step_id db) = Inr ''Step record deleted successfully''
      \<and> step_records (fst (delete_step_record step_id db)) = remove1 r (step_records db)
      \<and> weight_goals (fst (delete_step_record step_id db)) = weight_goals db)"
proof (intro conjI impI)
  assume "step_id \<notin> id' ` set (step_records db)"
  then have "first (filter (\<lambda>r. id' r = step_id) (step_records db)) = None"
    by (auto simp: first_filter_None)
  then show "delete_step_record step_id db
        = (db, Inl (HTTPException 404 ''Step record not found''))"
    by (simp add: delete_step_record_def)
next
  assume h: "r \<in> set (step_records db) \<and> id' r = step_id
        \<and> distinct (map id' (step_records db))"
  then have "first (filter (\<lambda>r. id' r = step_id) (step_records db)) \<noteq> None"
    by (auto simp: first_filter_None)
  then show "snd (delete_step_record step_id db) = Inr ''Step record deleted successfully''"
    by (auto simp: delete_step_record_def)
  from h show "step_records (fst (delete_step_record step_id db))
      = remove1 r (step_records db)"
    using filter_other_ids_remove1[of "step_records db" r] by (simp add: step_records_delete)
  show "weight_goals (fst (delete_step_record step_id db)) = weight_goals db"
    by (rule weight_goals_delete)
qed

theorem delete_step_record_cases_witness:
  "7 \<notin> id' ` set (step_records two_walks)
   \<and> delete_step_record 7 two_walks
       = (two_walks, Inl (HTTPException 404 ''Step record not found''))
   \<and> walk 1 10000 \<in> set (step_records two_walks) \<and> id' (walk 1 10000) = 1
   \<and> distinct (map id' (step_records two_walks))
   \<and> delete_step_record 1 two_walks
       = (\<lparr>step_records = [walk 2 5000], weight_goals = [example_goal 1600.2]\<rparr>,
          Inr ''Step record deleted successfully'')"
proof -
  have absent: "7 \<notin> id' ` set (step_records two_walks)"
    by (simp add: two_walks_def walk_def)
  have present: "walk 1 10000 \<in> set (step_records two_walks) \<and> id' (walk 1 10000) = 1
      \<and> distinct (map id' (step_records two_walks))"
    by (simp add: two_walks_def walk_def)
  have shape: "fst (delete_step_record 1 two_walks)
      = \<lparr>step_records = step_records (fst (delete_step_record 1 two_walks)),
         weight_goals = weight_goals (fst (delete_step_record 1 two_walks))\<rparr>"
    by simp
  have rest: "remove1 (walk 1 10000) (step_records two_walks) = [walk 2 5000]"
    by (simp add: two_walks_def)
  have goals: "weight_goals two_walks = [example_goal 1600.2]"
    by (simp add: two_walks_def)
  from delete_step_record_cases [of 7 two_walks] absent
  have nf: "delete_step_record 7 two_walks
       = (two_walks, Inl (HTTPException 404 ''Step record not found''))"
    by blast
  from delete_step_record_cases [of 1 two_walks "walk 1 10000"] present
  have "snd (delete_step_record 1 two_walks) = Inr ''Step record deleted successfully''
      \<and> step_records (fst (delete_step_record 1 two_walks)) = [walk 2 5000]
      \<and> weight_goals (fst (delete_step_record 1 two_walks)) = [example_goal 1600.2]"
    by (simp only: rest goals)
  with shape have "delete_step_record 1 two_walks
       = (\<lparr>step_records = [walk 2 5000], weight_goals = [example_goal 1600.2]\<rparr>,
          Inr ''Step record deleted successfully'')"
    by (metis prod.collapse)
  with nf absent present show ?thesis by blast
qed

text \<open>
  C7, as amended. For every store and every limit \<open>n \<ge> 0\<close>, list-steps returns the \<open>n\<close>
  most recent step rows, newest first. In particular, after three inserts into any store
  a request with limit 2 returns exactly two rows, the two most recent, newest first; when
  the three are inserted at increasing times, later than the rows already there, these
  are the third and the second row, in that order. For a negative limit the operation
  returns what the store answers to that limit for the rows ordered newest first. (See
  the counterexample for the answers of two engines.)
\<close>

theorem get_steps_most_recent:
  "(0 \<le> n \<longrightarrow>
      (\<exists>result. get_steps negative_limit n db = Inr result
         \<and> most_recent n (step_records db) result))
   \<and> (n < 0 \<longrightarrow>
        get_steps negative_limit n db
          = negative_limit (order_by_created_at_desc (step_records db)))
   \<and> (\<exists>result.
          get_steps negative_limit 2
            (fst (add_steps defaults a3 s3
               (fst (add_steps defaults a2 s2 (fst (add_steps defaults a1 s1 db))))))
            = Inr result
          \<and> length result = 2
          \<and> most_recent 2
               (step_records
                  (fst (add_steps defaults a3 s3
                     (fst (add_steps defaults a2 s2 (fst (add_steps defaults a1 s1 db)))))))
               result)
   \<and> ((\<forall>r\<in>set (step_records db). created_at r < step_now a1)
        \<and> step_now a1 < step_now a2 \<and> step_now a2 < step_now a3 \<longrightarrow>
        get_steps negative_limit 2
          (fst (add_steps defaults a3 s3
             (fst (add_steps defaults a2 s2 (fst (add_steps defaults a1 s1 db))))))
        = Inr [snd (add_steps defaults a3 s3
                 (fst (add_steps defaults a2 s2 (fst (add_steps defaults a1 s1 db))))),
               snd (add_steps defaults a2 s2 (fst (add_steps defaults a1 s1 db)))])"
proof -
  let ?db1 = "fst (add_steps defaults a1 s1 db)"
  let ?db2 = "fst (add_steps defaults a2 s2 ?db1)"
  let ?db3 = "fst (add_steps defaults a3 s3 ?db2)"
  let ?r1 = "snd (add_steps defaults a1 s1 db)"
  let ?r2 = "snd (add_steps defaults a2 s2 ?db1)"
  let ?r3 = "snd (add_steps defaults a3 s3 ?db2)"
  have rows: "step_records ?db3 = step_records db @ [?r1, ?r2, ?r3]"
    by (simp add: step_records_add_steps)
  have general: "\<exists>result. get_steps negative_limit m d = Inr result
         \<and> most_recent m (step_records d) result" if "0 \<le> m" for m d
    using that by (simp add: get_steps_def limit_def most_recent_take)
  have negative: "get_steps negative_limit n db
          = negative_limit (order_by_created_at_desc (step_records db))" if "n < 0"
    using that by (simp add: get_steps_def limit_def)
  have two: "\<exists>result. get_steps negative_limit 2 ?db3 = Inr result
          \<and> length result = 2 \<and> most_recent 2 (step_records ?db3) result"
  proof -
    from general[of 2 ?db3] obtain result
      where r: "get_steps negative_limit 2 ?db3 = Inr result"
        "most_recent 2 (step_records ?db3) result"
      by auto
    from r(2) have "length result = 2"
      by (simp add: most_recent_def rows)
    with r show ?thesis by blast
  qed
  have explicit: "get_steps negative_limit 2 ?db3 = Inr [?r3, ?r2]"
    if h: "(\<forall>r\<in>set (step_records db). created_at r < step_now a1)
        \<and> step_now a1 < step_now a2 \<and> step_now a2 < step_now a3"
  proof -
    have "\<forall>x\<in>set (step_records db). created_at x < created_at ?r1"
      "created_at ?r1 < created_at ?r2" "created_at ?r2 < created_at ?r3"
      using h by (simp_all add: snd_add_steps)
    then have "order_by_created_at_desc (step_records db @ [?r1, ?r2, ?r3])
        = [?r3, ?r2, ?r1] @ order_by_created_at_desc (step_records db)"
      by (rule order_by_older_then_three)
    then show ?thesis
      by (simp add: get_steps_def limit_def rows)
  qed
  from general[of n db] negative two explicit show ?thesis by blast
qed

theorem get_steps_most_recent_witness:
  "(0::int) \<le> 2
   \<and> get_steps sqlite_negative_limit 2 three_walks = Inr [walk 3 2000, walk 2 5000]
   \<and> most_recent 2 (step_records three_walks) [walk 3 2000, walk 2 5000]
   \<and> (- 1 :: int) < 0
   \<and> get_steps sqlite_negative_limit (- 1) three_walks
       = sqlite_negative_limit [walk 3 2000, walk 2 5000, walk 1 10000]
   \<and> step_records one_walk = [walk 1 10000]
   \<and> created_at (walk 1 10000) < step_now (assigned_at 2)
   \<and> step_now (assigned_at 2) < step_now (assigned_at 3)
   \<and> step_now (assigned_at 3) < step_now (assigned_at 4)
   \<and> get_steps sqlite_negative_limit 2
        (fst (add_steps example_defaults (assigned_at 4) \<lparr>steps = 1000\<rparr>
           (fst (add_steps example_defaults (assigned_at 3) \<lparr>steps = 2000\<rparr>
              (fst (add_steps example_defaults (assigned_at 2) \<lparr>steps = 5000\<rparr>
                 one_walk))))))
       = Inr [walk 4 1000, walk 3 2000]"
proof -
  have eval: "get_steps sqlite_negative_limit 2 three_walks
      = Inr [walk 3 2000, walk 2 5000]"
    by (simp add: example_defs handler_defs)
  have sorted: "order_by_created_at_desc (step_records three_walks)
      = [walk 3 2000, walk 2 5000, walk 1 10000]"
    by (simp add: example_defs handler_defs)
  have rows: "step_records one_walk = [walk 1 10000]"
    by (simp add: one_walk_def)
  have older: "\<forall>r\<in>set (step_records one_walk). created_at r < step_now (assigned_at 2)"
    by (simp add: one_walk_def walk_def assigned_at_def)
  have times: "created_at (walk 1 10000) < step_now (assigned_at 2)
      \<and> step_now (assigned_at 2) < step_now (assigned_at 3)
      \<and> step_now (assigned_at 3) < step_now (assigned_at 4)"
    by (simp add: walk_def assigned_at_def)
  have fourth: "snd (add_steps example_defaults (assigned_at 4) \<lparr>steps = 1000\<rparr> three_walks)
      = walk 4 1000"
    by (simp add: example_defs handler_defs)
  note inst = get_steps_most_recent [where negative_limit = sqlite_negative_limit
      and defaults = example_defaults]
  from inst [where n = 2 and db = three_walks] eval
  have recent: "most_recent 2 (step_records three_walks) [walk 3 2000, walk 2 5000]"
    by auto
  from inst [where n = "- 1" and db = three_walks] sorted
  have neg: "get_steps sqlite_negative_limit (- 1) three_walks
       = sqlite_negative_limit [walk 3 2000, walk 2 5000, walk 1 10000]"
    by simp
  from inst [where db = one_walk and ?a1.0 = "assigned_at 2"
      and ?a2.0 = "assigned_at 3" and ?a3.0 = "assigned_at 4"
      and ?s1.0 = "\<lparr>steps = 5000\<rparr>" and ?s2.0 = "\<lparr>steps = 2000\<rparr>"
      and ?s3.0 = "\<lparr>steps = 1000\<rparr>"] older times
  have "get_steps sqlite_negative_limit 2
        (fst (add_steps example_defaults (assigned_at 4) \<lparr>steps = 1000\<rparr>
           (fst (add_steps example_defaults (assigned_at 3) \<lparr>steps = 2000\<rparr>
              (fst (add_steps example_defaults (assigned_at 2) \<lparr>steps = 5000\<rparr>
                 one_walk))))))
       = Inr [walk 4 1000, walk 3 2000]"
    by (simp add: add_second_walk add_third_walk fourth)
  with eval recent neg rows times show ?thesis by simp
qed

text \<open>
  C7 as stated fails for a negative limit. After three inserts into the empty database,
  \<^verbatim>\<open>GET /steps?limit=-1\<close> returns all three rows on SQLite, which are not the most recent
  \<open>-1\<close> rows under any reading (not even the one that asks for no rows), and raises on
  PostgreSQL.
\<close>

theorem get_steps_negative_limit_counterexample:
  "fst (add_steps example_defaults (assigned_at 3) \<lparr>steps = 2000\<rparr>
     (fst (add_steps example_defaults (assigned_at 2) \<lparr>steps = 5000\<rparr>
        (fst (add_steps example_defaults (assigned_at 1) \<lparr>steps = 10000\<rparr>
           empty_store))))) = three_walks
   \<and> get_steps sqlite_negative_limit (- 1) three_walks
       = Inr [walk 3 2000, walk 2 5000, walk 1 10000]
   \<and> \<not> most_recent (- 1) (step_records three_walks)
         [walk 3 2000, walk 2 5000, walk 1 10000]
   \<and> most_recent (- 1) (step_records three_walks) []
   \<and> get_steps postgresql_negative_limit (- 1) three_walks = Inl DBAPIError"
proof -
  have "most_recent (- 1) (step_records three_walks) []"
    by (simp add: most_recent_def newest_first_def)
  moreover have "\<not> most_recent (- 1) (step_records three_walks)
         [walk 3 2000, walk 2 5000, walk 1 10000]"
    by (simp add: most_recent_def)
  moreover have "get_steps sqlite_negative_limit (- 1) three_walks
       = Inr [walk 3 2000, walk 2 5000, walk 1 10000]"
    by (simp add: example_defs handler_defs sqlite_negative_limit_def)
  moreover have "get_steps postgresql_negative_limit (- 1) three_walks = Inl DBAPIError"
    by (simp add: get_steps_def limit_def postgresql_negative_limit_def)
  ultimately show ?thesis
    by (simp add: add_first_walk add_second_walk add_third_walk)
qed




text \<open>
  C10. When a goal row exists, add-steps changes of it only \<open>calories_burned_so_far\<close>,
  which grows by the new row's \<open>calories_burned\<close>; the goal's id, target weight loss,
  total calories needed and creation time stay, any further goal rows stay, and the step
  rows that were there stay, followed by the new row.
\<close>

theorem add_steps_frame:
  assumes "weight_goals db = g # gs" and "add_steps defaults a step_data db = (db', r)"
  shows "weight_goals db'
           = g\<lparr>calories_burned_so_far := calories_burned_so_far g + calories_burned r\<rparr> # gs
         \<and> goal_id (hd (weight_goals db')) = goal_id g
         \<and> target_weight_loss_kg (hd (weight_goals db')) = target_weight_loss_kg g
         \<and> total_calories_needed (hd (weight_goals db')) = total_calories_needed g
         \<and> goal_created_at (hd (weight_goals db')) = goal_created_at g
         \<and> step_records db' = step_records db @ [r]"
  using assms by (auto simp: add_steps_def Let_def first_def split: prod.splits)

theorem add_steps_frame_witness:
  "weight_goals one_walk = example_goal 1066.8 # []
   \<and> add_steps example_defaults (assigned_at 2) \<lparr>steps = 5000\<rparr> one_walk
       = (two_walks, walk 2 5000)
   \<and> weight_goals two_walks
       = (example_goal 1066.8)\<lparr>calories_burned_so_far := 1066.8 + 533.4\<rparr> # []
   \<and> step_records two_walks = step_records one_walk @ [walk 2 5000]"
proof -
  have goals: "weight_goals one_walk = example_goal 1066.8 # []"
    by (simp add: one_walk_def)
  show ?thesis
    using add_steps_frame [OF goals add_second_walk] goals add_second_walk
    by (simp add: example_goal_def walk_def)
qed

end
